theory Spec2Isabelle
  imports Main
begin

section \<open>Application Shell A: \<^verbatim>\<open>resteasy/__main__.py\<close>\<close>

subsection \<open>The GTK objects the module touches\<close>

text \<open>
  The module builds its window through PyGObject. The toolkit state that the
  source reads or writes is kept in one record that every call threads through:
  the process-wide GLib application name, the application objects (an object
  is identified by its position, the value is its \<^verbatim>\<open>application_id\<close>
  property) and the windows created so far.  A window carries the properties the
  source sets: its owning application, its title, and whether it is on screen.
\<close>

record gtk_window =
  application :: "nat option"
  title :: string
  visible :: bool

record gtk_world =
  application_name :: "string option"
  applications :: "string list"
  windows :: "gtk_window list"

definition gtk_initial :: gtk_world where
  "gtk_initial = \<lparr>application_name = None, applications = [], windows = []\<rparr>"

text \<open>\<^verbatim>\<open>Gtk.Application(application_id=...)\<close>: a new application object.\<close>

definition Application_new :: "string \<Rightarrow> gtk_world \<Rightarrow> nat \<times> gtk_world" where
  "Application_new app_id w =
     (length (applications w), w\<lparr>applications := applications w @ [app_id]\<rparr>)"

text \<open>
  \<^verbatim>\<open>GLib.set_application_name(name)\<close>: GLib keeps the first name it is given
  and only warns on a later call.
\<close>

definition set_application_name :: "string \<Rightarrow> gtk_world \<Rightarrow> gtk_world" where
  "set_application_name name w =
     (case application_name w of
        None \<Rightarrow> w\<lparr>application_name := Some name\<rparr>
      | Some _ \<Rightarrow> w)"

text \<open>
  \<^verbatim>\<open>Gtk.ApplicationWindow(application=app, title=t)\<close>: a new window that belongs
  to \<open>app\<close>; a window is not on screen until it is presented.
\<close>

definition ApplicationWindow_new :: "nat \<Rightarrow> string \<Rightarrow> gtk_world \<Rightarrow> nat \<times> gtk_world" where
  "ApplicationWindow_new app t w =
     (length (windows w),
      w\<lparr>windows := windows w @ [\<lparr>application = Some app, title = t, visible = False\<rparr>]\<rparr>)"

text \<open>\<^verbatim>\<open>window.present()\<close>: the window is put on screen.\<close>

definition present :: "nat \<Rightarrow> gtk_world \<Rightarrow> gtk_world" where
  "present i w =
     (if i < length (windows w)
      then w\<lparr>windows := (windows w)[i := (windows w ! i)\<lparr>visible := True\<rparr>]\<rparr>
      else w)"

subsection \<open>\<^verbatim>\<open>class MyApplication(Gtk.Application)\<close>\<close>

text \<open>
  \<^verbatim>\<open>
  def __init__(self):
      super().__init__(application_id="com.resteasy.RestEasy")
      GLib.set_application_name("RestEasy")
  \<close>
\<close>

definition MyApplication_init :: "gtk_world \<Rightarrow> nat \<times> gtk_world" where
  "MyApplication_init w0 =
     (let (self, w1) = Application_new ''com.resteasy.RestEasy'' w0;
          w2 = set_application_name ''RestEasy'' w1
      in (self, w2))"

text \<open>
  \<^verbatim>\<open>
  def do_activate(self):
      window = Gtk.ApplicationWindow(application=self, title="Hello, RestEasy!")
      window.present()
  \<close>
\<close>

definition do_activate :: "nat \<Rightarrow> gtk_world \<Rightarrow> gtk_world" where
  "do_activate self w0 =
     (let (window, w1) = ApplicationWindow_new self ''Hello, RestEasy!'' w0;
          w2 = present window w1
      in w2)"

text \<open>The windows that are on screen, and those that belong to an application.\<close>

definition shown_windows :: "gtk_world \<Rightarrow> gtk_window list" where
  "shown_windows w = filter visible (windows w)"

definition windows_of :: "nat \<Rightarrow> gtk_world \<Rightarrow> gtk_window list" where
  "windows_of app w = filter (\<lambda>x. application x = Some app) (windows w)"

text \<open>
  A fresh process: the application object is constructed in the initial toolkit
  state, as the entry point does.
\<close>

definition fresh_app :: "nat \<times> gtk_world" where
  "fresh_app = MyApplication_init gtk_initial"

text \<open>
  Any number of activations, as the toolkit delivers them one after the other
  to the same application object.
\<close>

definition activations :: "nat \<Rightarrow> nat \<Rightarrow> gtk_world \<Rightarrow> gtk_world" where
  "activations n self w = ((do_activate self) ^^ n) w"

subsection \<open>The module's top level: imports and the version requirement\<close>

text \<open>
  PyGObject resolves \<^verbatim>\<open>gi.repository.X\<close> against the typelib files installed
  on the machine, so whether the module's first lines raise depends on that
  installation. The repository state holds the installed typelibs (namespace
  and version, \<^verbatim>\<open>"4.0"\<close> is \<open>(4, 0)\<close>), the namespaces loaded so far with the
  version that was loaded, and the versions registered by
  \<^verbatim>\<open>gi.require_version\<close>. Dependencies between namespaces are left out.
\<close>

type_synonym version = "nat \<times> nat"

datatype py_exception = ImportError | ValueError | RuntimeError

record gi_repository =
  typelibs :: "(string \<times> version) list"
  loaded :: "string \<rightharpoonup> version"
  required :: "string \<rightharpoonup> version"

definition enumerate_versions :: "string \<Rightarrow> gi_repository \<Rightarrow> version list" where
  "enumerate_versions ns r = map snd (filter (\<lambda>t. fst t = ns) (typelibs r))"

fun newer :: "version \<Rightarrow> version \<Rightarrow> bool" where
  "newer (a, b) (c, d) = (c < a \<or> (c = a \<and> d < b))"

text \<open>The version an import picks when none was required: the newest installed.\<close>

fun latest :: "version list \<Rightarrow> version option" where
  "latest [] = None"
| "latest (v # vs) =
     (case latest vs of
        None \<Rightarrow> Some v
      | Some u \<Rightarrow> if newer u v then Some u else Some v)"

text \<open>
  \<^verbatim>\<open>from gi.repository import ns\<close>: a namespace that is loaded already is
  returned as it is; otherwise the required version is loaded, or the newest
  installed one when no version was required. ImportError when there is no
  typelib to load.
\<close>

definition import_namespace :: "string \<Rightarrow> gi_repository \<Rightarrow> py_exception + gi_repository" where
  "import_namespace ns r =
     (case loaded r ns of
        Some _ \<Rightarrow> Inr r
      | None \<Rightarrow>
          (case required r ns of
             Some v \<Rightarrow>
               if v \<in> set (enumerate_versions ns r)
               then Inr (r\<lparr>loaded := (loaded r)(ns \<mapsto> v)\<rparr>)
               else Inl ImportError
           | None \<Rightarrow>
               (case latest (enumerate_versions ns r) of
                  None \<Rightarrow> Inl ImportError
                | Some v \<Rightarrow> Inr (r\<lparr>loaded := (loaded r)(ns \<mapsto> v)\<rparr>))))"

text \<open>
  \<^verbatim>\<open>gi.require_version(ns, v)\<close>: ValueError when the namespace is already loaded
  with another version, when another version was required before, or when
  the version is not installed; otherwise the requirement is registered.
\<close>

definition require_version :: "string \<Rightarrow> version \<Rightarrow> gi_repository \<Rightarrow> py_exception + gi_repository" where
  "require_version ns v r =
     (if (case loaded r ns of Some lv \<Rightarrow> lv \<noteq> v | None \<Rightarrow> False) then Inl ValueError
      else if (case required r ns of Some rv \<Rightarrow> rv \<noteq> v | None \<Rightarrow> False) then Inl ValueError
      else if enumerate_versions ns r = [] then Inl ValueError
      else if v \<notin> set (enumerate_versions ns r) then Inl ValueError
      else Inr (r\<lparr>required := (required r)(ns \<mapsto> v)\<rparr>))"

text \<open>
  \<^verbatim>\<open>
  import sys

  import gi
  from gi.repository import GLib, Gtk

  gi.require_version("Gtk", "4.0")
  \<close>
  The statements run in this order and the first exception ends the import.
\<close>

definition module_toplevel :: "gi_repository \<Rightarrow> py_exception + gi_repository" where
  "module_toplevel r0 =
     (case import_namespace ''GLib'' r0 of
        Inl e \<Rightarrow> Inl e
      | Inr r1 \<Rightarrow>
          (case import_namespace ''Gtk'' r1 of
             Inl e \<Rightarrow> Inl e
           | Inr r2 \<Rightarrow> require_version ''Gtk'' (4, 0) r2))"

text \<open>
  For comparison, an unpinned import: the same import statement with no
  version requirement anywhere.
\<close>

definition unpinned_import :: "gi_repository \<Rightarrow> py_exception + gi_repository" where
  "unpinned_import r0 =
     (case import_namespace ''GLib'' r0 of
        Inl e \<Rightarrow> Inl e
      | Inr r1 \<Rightarrow> import_namespace ''Gtk'' r1)"

text \<open>A fresh interpreter on a given installation: nothing loaded, nothing required.\<close>

definition fresh_repository :: "(string \<times> version) list \<Rightarrow> gi_repository" where
  "fresh_repository ts = \<lparr>typelibs = ts, loaded = Map.empty, required = Map.empty\<rparr>"

text \<open>Importing the module and then calling \<^verbatim>\<open>MyApplication()\<close>.\<close>

definition import_and_instantiate ::
  "gi_repository \<Rightarrow> gtk_world \<Rightarrow> py_exception + (gi_repository \<times> nat \<times> gtk_world)" where
  "import_and_instantiate r w =
     (case module_toplevel r of
        Inl e \<Rightarrow> Inl e
      | Inr r' \<Rightarrow> Inr (r', MyApplication_init w))"

subsection \<open>The entry point\<close>

text \<open>
  \<^verbatim>\<open>
  if __name__ == "__main__":
      app = MyApplication()
      exit_status = app.run(sys.argv)
      sys.exit(exit_status)
  \<close>
  \<^verbatim>\<open>Gtk.Application.run\<close> is the toolkit's event loop: it is a parameter here.
  It is given the object's \<^verbatim>\<open>do_activate\<close> override, the application and
  the argument vector, and returns the exit status and the final toolkit state,
  or nothing when the loop never ends.
\<close>






section \<open>Window Shell B: \<^verbatim>\<open>resteasy/view/dashboard.py\<close>\<close>

subsection \<open>The Qt objects the class touches\<close>

text \<open>
  Qt widgets live in a store; a widget is identified by its position. A widget
  with no parent is a window. The record holds the properties the source sets:
  the window title, the button text, the central widget of a main window, the
  signal connections made on the widget, and whether the widget was put on
  screen by \<^verbatim>\<open>show()\<close> and not closed since.
\<close>

datatype widget_class = QMainWindow | QPushButton

datatype signal = pressed | released | clicked | toggled

text \<open>A connected callable; the source connects the bound method \<^verbatim>\<open>self.close\<close>.\<close>

datatype slot = close_of nat

record qwidget =
  cls :: widget_class
  parent :: "nat option"
  windowTitle :: string
  buttonText :: string
  centralWidget :: "nat option"
  connections :: "(signal \<times> slot) list"
  shown :: bool

type_synonym qt_world = "qwidget list"

definition QWidget_new :: "widget_class \<Rightarrow> string \<Rightarrow> qwidget" where
  "QWidget_new c t =
     \<lparr>cls = c, parent = None, windowTitle = [], buttonText = t,
      centralWidget = None, connections = [], shown = False\<rparr>"

text \<open>\<^verbatim>\<open>QMainWindow()\<close> and \<^verbatim>\<open>QPushButton(text)\<close>: a new widget, without a parent.\<close>

definition QMainWindow_new :: "qt_world \<Rightarrow> nat \<times> qt_world" where
  "QMainWindow_new w = (length w, w @ [QWidget_new QMainWindow []])"

definition QPushButton_new :: "string \<Rightarrow> qt_world \<Rightarrow> nat \<times> qt_world" where
  "QPushButton_new t w = (length w, w @ [QWidget_new QPushButton t])"

definition setWindowTitle :: "nat \<Rightarrow> string \<Rightarrow> qt_world \<Rightarrow> qt_world" where
  "setWindowTitle i t w = (if i < length w then w[i := (w ! i)\<lparr>windowTitle := t\<rparr>] else w)"

text \<open>\<^verbatim>\<open>widget.sig.connect(slot)\<close>: connections are kept in the order they are made.\<close>

definition connect :: "nat \<Rightarrow> signal \<Rightarrow> slot \<Rightarrow> qt_world \<Rightarrow> qt_world" where
  "connect i sig sl w =
     (if i < length w then w[i := (w ! i)\<lparr>connections := connections (w ! i) @ [(sig, sl)]\<rparr>]
      else w)"

text \<open>\<^verbatim>\<open>setCentralWidget\<close>: the main window takes the widget as its child.\<close>

definition setCentralWidget :: "nat \<Rightarrow> nat \<Rightarrow> qt_world \<Rightarrow> qt_world" where
  "setCentralWidget i c w =
     (if i < length w \<and> c < length w
      then (w[i := (w ! i)\<lparr>centralWidget := Some c\<rparr>])[c := (w ! c)\<lparr>parent := Some i\<rparr>]
      else w)"

definition show_widget :: "nat \<Rightarrow> qt_world \<Rightarrow> qt_world" where
  "show_widget i w = (if i < length w then w[i := (w ! i)\<lparr>shown := True\<rparr>] else w)"

definition close_widget :: "nat \<Rightarrow> qt_world \<Rightarrow> qt_world" where
  "close_widget i w = (if i < length w then w[i := (w ! i)\<lparr>shown := False\<rparr>] else w)"

text \<open>
  Emitting a signal calls the slots connected to it, in connection order. A
  bound method of a widget that is not in the store any more raises
  RuntimeError, and the first exception ends the emission.
\<close>

fun invoke :: "slot \<Rightarrow> qt_world \<Rightarrow> py_exception + qt_world" where
  "invoke (close_of i) w = (if i < length w then Inr (close_widget i w) else Inl RuntimeError)"

fun invoke_all :: "slot list \<Rightarrow> qt_world \<Rightarrow> py_exception + qt_world" where
  "invoke_all [] w = Inr w"
| "invoke_all (s # ss) w =
     (case invoke s w of
        Inl e \<Rightarrow> Inl e
      | Inr w' \<Rightarrow> invoke_all ss w')"

definition emit :: "nat \<Rightarrow> signal \<Rightarrow> qt_world \<Rightarrow> py_exception + qt_world" where
  "emit i sig w =
     (if i < length w
      then invoke_all (map snd (filter (\<lambda>c. fst c = sig) (connections (w ! i)))) w
      else Inl RuntimeError)"

subsection \<open>\<^verbatim>\<open>class Dashboard(QMainWindow)\<close>\<close>

text \<open>
  \<^verbatim>\<open>
  def __init__(self):
      super().__init__()
      self.setWindowTitle("RestEasy")
      button = QPushButton("RestEasy (WIP)")
      _ = button.pressed.connect(self.close)
      self.setCentralWidget(button)
      self.show()
  \<close>
\<close>

definition Dashboard_init :: "qt_world \<Rightarrow> nat \<times> qt_world" where
  "Dashboard_init w0 =
     (let (self, w1) = QMainWindow_new w0;
          w2 = setWindowTitle self ''RestEasy'' w1;
          (button, w3) = QPushButton_new ''RestEasy (WIP)'' w2;
          w4 = connect button pressed (close_of self) w3;
          w5 = setCentralWidget self button w4;
          w6 = show_widget self w5
      in (self, w6))"

text \<open>Windows, windows on screen, and the widgets inside a given widget.\<close>

definition qt_windows :: "qt_world \<Rightarrow> qwidget list" where
  "qt_windows w = filter (\<lambda>x. parent x = None) w"

definition qt_shown_windows :: "qt_world \<Rightarrow> qwidget list" where
  "qt_shown_windows w = filter (\<lambda>x. parent x = None \<and> shown x) w"

definition children :: "nat \<Rightarrow> qt_world \<Rightarrow> qwidget list" where
  "children i w = filter (\<lambda>x. parent x = Some i) w"

text \<open>A store is well formed when every parent is a widget of the store.\<close>

definition wf_world :: "qt_world \<Rightarrow> bool" where
  "wf_world w = list_all (\<lambda>x. case parent x of None \<Rightarrow> True | Some p \<Rightarrow> p < length w) w"

section \<open>Properties of Shell A\<close>

subsection \<open>What the two methods compute\<close>

lemma MyApplication_init_eq:
  "MyApplication_init w =
     (length (applications w),
      w\<lparr>applications := applications w @ [''com.resteasy.RestEasy''],
        application_name :=
          (case application_name w of None \<Rightarrow> Some ''RestEasy'' | Some n \<Rightarrow> Some n)\<rparr>)"
  by (cases "application_name w")
     (simp_all add: MyApplication_init_def Application_new_def set_application_name_def)

lemma do_activate_eq:
  "do_activate self w =
     w\<lparr>windows := windows w @
        [\<lparr>application = Some self, title = ''Hello, RestEasy!'', visible = True\<rparr>]\<rparr>"
  by (simp add: do_activate_def ApplicationWindow_new_def present_def)

lemma fresh_app_eq:
  "fresh_app =
     (0, \<lparr>application_name = Some ''RestEasy'',
          applications = [''com.resteasy.RestEasy''], windows = []\<rparr>)"
  by (simp add: fresh_app_def MyApplication_init_eq gtk_initial_def)

lemma activations_windows:
  "windows (activations n self w) =
     windows w @
     replicate n \<lparr>application = Some self, title = ''Hello, RestEasy!'', visible = True\<rparr>"
proof (induction n arbitrary: w)
  case 0
  show ?case by (simp add: activations_def)
next
  case (Suc n)
  have "activations (Suc n) self w = activations n self (do_activate self w)"
    by (simp add: activations_def funpow_swap1)
  then show ?case
    using Suc.IH [of "do_activate self w"]
    by (simp add: do_activate_eq replicate_app_Cons_same)
qed

lemma activations_shown:
  "length (shown_windows (activations n self w)) = length (shown_windows w) + n"
  by (simp add: shown_windows_def activations_windows)

subsection \<open>The application object\<close>

text \<open>
  C6. The application object that \<^verbatim>\<open>MyApplication()\<close> constructs carries the
  application identifier \<^verbatim>\<open>"com.resteasy.RestEasy"\<close>, whatever the toolkit state it
  is constructed in.
\<close>

theorem application_id_literal:
  "applications (snd (MyApplication_init w)) ! fst (MyApplication_init w)
     = ''com.resteasy.RestEasy''"
  by (simp add: MyApplication_init_eq)

subsection \<open>Activation\<close>

text \<open>
  C1, as stated: after \<^verbatim>\<open>activate()\<close> on a fresh application there is exactly
  one window, the application owns it, and its title is \<^verbatim>\<open>"RestEasy"\<close>. The
  conjunction is false: the title the source passes is
  \<^verbatim>\<open>"Hello, RestEasy!"\<close>.
\<close>

theorem activate_title_counterexample:
  "\<not> (length (windows (do_activate (fst fresh_app) (snd fresh_app))) = 1
      \<and> windows_of (fst fresh_app) (do_activate (fst fresh_app) (snd fresh_app))
          = windows (do_activate (fst fresh_app) (snd fresh_app))
      \<and> map title (windows (do_activate (fst fresh_app) (snd fresh_app))) = [''RestEasy''])"
  by (simp add: fresh_app_eq do_activate_eq)

text \<open>
  C1, amended: \<^verbatim>\<open>activate()\<close> on the application object adds exactly one window
  to those of the toolkit state; it is owned by the application, it is on
  screen, and its title is the literal \<^verbatim>\<open>"Hello, RestEasy!"\<close>. On a fresh
  application it is therefore the only window, and every window is the
  application's.
\<close>

theorem activate_creates_window:
  "windows (do_activate (fst (MyApplication_init w)) (snd (MyApplication_init w)))
     = windows w @ [\<lparr>application = Some (fst (MyApplication_init w)),
                      title = ''Hello, RestEasy!'', visible = True\<rparr>]
   \<and> windows (do_activate (fst fresh_app) (snd fresh_app))
     = [\<lparr>application = Some (fst fresh_app), title = ''Hello, RestEasy!'', visible = True\<rparr>]
   \<and> windows_of (fst fresh_app) (do_activate (fst fresh_app) (snd fresh_app))
     = windows (do_activate (fst fresh_app) (snd fresh_app))"
  by (simp add: MyApplication_init_eq fresh_app_eq do_activate_eq windows_of_def)

subsection \<open>Importing the module\<close>

lemma latest_mem: "latest vs = Some v \<Longrightarrow> v \<in> set vs"
  by (induction vs arbitrary: v) (auto split: option.splits if_splits)

lemma import_namespace_typelibs:
  "import_namespace ns r = Inr r' \<Longrightarrow> typelibs r' = typelibs r \<and> required r' = required r"
  by (auto simp add: import_namespace_def split: option.splits if_splits)

lemma import_namespace_other:
  "import_namespace ns r = Inr r' \<Longrightarrow> ns \<noteq> ns' \<Longrightarrow> loaded r' ns' = loaded r ns'"
  by (auto simp add: import_namespace_def split: option.splits if_splits)

lemma import_namespace_unpinned:
  "import_namespace ns r = Inr r' \<Longrightarrow> loaded r ns = None \<Longrightarrow> required r ns = None \<Longrightarrow>
     loaded r' ns = latest (enumerate_versions ns r)"
  by (auto simp add: import_namespace_def split: option.splits if_splits)

lemma require_version_loaded:
  "require_version ns v r = Inr r' \<Longrightarrow> loaded r' = loaded r \<and> typelibs r' = typelibs r"
  by (auto simp add: require_version_def split: if_splits)

lemma module_toplevel_unpinned:
  "module_toplevel r =
     (case unpinned_import r of Inl e \<Rightarrow> Inl e | Inr r2 \<Rightarrow> require_version ''Gtk'' (4, 0) r2)"
  by (simp add: module_toplevel_def unpinned_import_def split: sum.splits)

lemma unpinned_import_latest:
  assumes "loaded r ''Gtk'' = None" and "required r ''Gtk'' = None"
    and "unpinned_import r = Inr r2"
  shows "loaded r2 ''Gtk'' = latest (enumerate_versions ''Gtk'' r)"
proof -
  from assms(3) obtain r1 where g: "import_namespace ''GLib'' r = Inr r1"
    and k: "import_namespace ''Gtk'' r1 = Inr r2"
    by (auto simp add: unpinned_import_def split: sum.splits)
  have "loaded r1 ''Gtk'' = None"
    using import_namespace_other [OF g, of "''Gtk''"] assms(1) by simp
  moreover have "required r1 ''Gtk'' = None" and "typelibs r1 = typelibs r"
    using import_namespace_typelibs [OF g] assms(2) by simp_all
  ultimately show ?thesis
    using import_namespace_unpinned [OF k] by (simp add: enumerate_versions_def)
qed

text \<open>
  C5, as stated: importing the module and instantiating \<^verbatim>\<open>MyApplication()\<close>
  never raises. On a machine whose only Gtk typelib is version 3.0 the import
  loads Gtk 3.0 and \<^verbatim>\<open>gi.require_version("Gtk", "4.0")\<close> raises ValueError.
\<close>

theorem gtk3_only_counterexample:
  "import_and_instantiate (fresh_repository [(''GLib'', (2, 0)), (''Gtk'', (3, 0))]) gtk_initial
     = Inl ValueError"
  by (simp add: import_and_instantiate_def module_toplevel_def import_namespace_def
      require_version_def fresh_repository_def enumerate_versions_def)

text \<open>
  C5, amended: in a fresh interpreter on a machine where a GLib typelib is
  installed and the newest installed Gtk typelib is version 4.0, importing the
  module and instantiating \<^verbatim>\<open>MyApplication()\<close> raises nothing: GLib and Gtk 4.0
  are loaded, the requirement is registered, and the application object is
  constructed.
\<close>

theorem import_and_instantiate_ok:
  assumes "latest (enumerate_versions ''GLib'' (fresh_repository ts)) = Some g"
    and "latest (enumerate_versions ''Gtk'' (fresh_repository ts)) = Some (4, 0)"
  shows "import_and_instantiate (fresh_repository ts) w =
           Inr (\<lparr>typelibs = ts, loaded = [''GLib'' \<mapsto> g, ''Gtk'' \<mapsto> (4, 0)],
                 required = [''Gtk'' \<mapsto> (4, 0)]\<rparr>, MyApplication_init w)"
proof -
  have mem: "(4, 0) \<in> set (enumerate_versions ''Gtk'' (fresh_repository ts))"
    using assms(2) by (rule latest_mem)
  show ?thesis
    using assms mem
    by (auto simp add: import_and_instantiate_def module_toplevel_def import_namespace_def
        require_version_def fresh_repository_def enumerate_versions_def)
qed

theorem import_and_instantiate_ok_witness:
  "latest (enumerate_versions ''GLib''
      (fresh_repository [(''GLib'', (2, 0)), (''Gtk'', (3, 0)), (''Gtk'', (4, 0))])) = Some (2, 0)
   \<and> latest (enumerate_versions ''Gtk''
      (fresh_repository [(''GLib'', (2, 0)), (''Gtk'', (3, 0)), (''Gtk'', (4, 0))])) = Some (4, 0)
   \<and> import_and_instantiate
       (fresh_repository [(''GLib'', (2, 0)), (''Gtk'', (3, 0)), (''Gtk'', (4, 0))]) gtk_initial =
         Inr (\<lparr>typelibs = [(''GLib'', (2, 0)), (''Gtk'', (3, 0)), (''Gtk'', (4, 0))],
               loaded = [''GLib'' \<mapsto> (2, 0), ''Gtk'' \<mapsto> (4, 0)],
               required = [''Gtk'' \<mapsto> (4, 0)]\<rparr>, MyApplication_init gtk_initial)"
proof -
  have a: "latest (enumerate_versions ''GLib''
      (fresh_repository [(''GLib'', (2, 0)), (''Gtk'', (3, 0)), (''Gtk'', (4, 0))])) = Some (2, 0)"
    by (simp add: enumerate_versions_def fresh_repository_def)
  have b: "latest (enumerate_versions ''Gtk''
      (fresh_repository [(''GLib'', (2, 0)), (''Gtk'', (3, 0)), (''Gtk'', (4, 0))])) = Some (4, 0)"
    by (simp add: enumerate_versions_def fresh_repository_def)
  show ?thesis
    using a b import_and_instantiate_ok [OF a b, of gtk_initial] by simp
qed

lemma late_requirement_raises:
  assumes "unpinned_import r = Inr r2" and "loaded r2 ''Gtk'' = Some v" and "v \<noteq> (4, 0)"
  shows "module_toplevel r = Inl ValueError"
  using assms by (simp add: module_toplevel_unpinned require_version_def)

text \<open>
  C10, as stated: the requirement comes too late to constrain the import, and
  importing the module behaves as an unpinned Gtk import. The last part fails:
  on a machine whose only Gtk typelib is version 3.0 the unpinned import
  succeeds with Gtk 3.0, while the module's top level ends in the ValueError
  of the late \<^verbatim>\<open>gi.require_version("Gtk", "4.0")\<close>.
\<close>

theorem late_requirement_counterexample:
  "unpinned_import (fresh_repository [(''GLib'', (2, 0)), (''Gtk'', (3, 0))])
     = Inr \<lparr>typelibs = [(''GLib'', (2, 0)), (''Gtk'', (3, 0))],
            loaded = [''GLib'' \<mapsto> (2, 0), ''Gtk'' \<mapsto> (3, 0)], required = Map.empty\<rparr>
   \<and> module_toplevel (fresh_repository [(''GLib'', (2, 0)), (''Gtk'', (3, 0))]) = Inl ValueError"
  by (simp add: module_toplevel_def unpinned_import_def import_namespace_def
      require_version_def fresh_repository_def enumerate_versions_def)

text \<open>
  C10, amended. In the module, \<^verbatim>\<open>gi.require_version("Gtk", "4.0")\<close> runs on the
  state that \<^verbatim>\<open>from gi.repository import GLib, Gtk\<close> has left, so the
  requirement has no part in choosing the Gtk that is imported: when no Gtk
  was loaded or required before, the import statement loads the newest
  installed Gtk, exactly as an unpinned import does, and whenever the module's
  top level completes, the namespaces it has loaded are those of the unpinned
  import. The late call is still a check: when the Gtk that was loaded is not
  4.0, the module's top level raises ValueError.
\<close>

theorem require_version_after_import:
  assumes "loaded r ''Gtk'' = None" and "required r ''Gtk'' = None"
  shows "module_toplevel r =
           (case unpinned_import r of
              Inl e \<Rightarrow> Inl e
            | Inr r2 \<Rightarrow> require_version ''Gtk'' (4, 0) r2)
         \<and> (\<forall>r2. unpinned_import r = Inr r2 \<longrightarrow>
               loaded r2 ''Gtk'' = latest (enumerate_versions ''Gtk'' r))
         \<and> (\<forall>r'. module_toplevel r = Inr r' \<longrightarrow>
               (\<exists>r2. unpinned_import r = Inr r2 \<and> loaded r' = loaded r2
                     \<and> loaded r' ''Gtk'' = latest (enumerate_versions ''Gtk'' r)))
         \<and> (\<forall>r2 v. unpinned_import r = Inr r2 \<and> loaded r2 ''Gtk'' = Some v \<and> v \<noteq> (4, 0) \<longrightarrow>
               module_toplevel r = Inl ValueError)"
proof (intro conjI allI impI)
  show "module_toplevel r =
           (case unpinned_import r of
              Inl e \<Rightarrow> Inl e
            | Inr r2 \<Rightarrow> require_version ''Gtk'' (4, 0) r2)"
    by (rule module_toplevel_unpinned)
next
  fix r2 assume "unpinned_import r = Inr r2"
  then show "loaded r2 ''Gtk'' = latest (enumerate_versions ''Gtk'' r)"
    using assms by (simp add: unpinned_import_latest)
next
  fix r' assume m: "module_toplevel r = Inr r'"
  then obtain r2 where u: "unpinned_import r = Inr r2"
    and q: "require_version ''Gtk'' (4, 0) r2 = Inr r'"
    by (auto simp add: module_toplevel_unpinned split: sum.splits)
  have "loaded r' = loaded r2"
    using require_version_loaded [OF q] by simp
  moreover have "loaded r2 ''Gtk'' = latest (enumerate_versions ''Gtk'' r)"
    using assms u by (simp add: unpinned_import_latest)
  ultimately show "\<exists>r2. unpinned_import r = Inr r2 \<and> loaded r' = loaded r2
                     \<and> loaded r' ''Gtk'' = latest (enumerate_versions ''Gtk'' r)"
    using u by simp
next
  fix r2 v
  assume "unpinned_import r = Inr r2 \<and> loaded r2 ''Gtk'' = Some v \<and> v \<noteq> (4, 0)"
  then show "module_toplevel r = Inl ValueError"
    by (simp add: late_requirement_raises)
qed

theorem require_version_after_import_witness:
  "loaded (fresh_repository [(''GLib'', (2, 0)), (''Gtk'', (3, 0)), (''Gtk'', (4, 0))]) ''Gtk''
     = None
   \<and> required (fresh_repository [(''GLib'', (2, 0)), (''Gtk'', (3, 0)), (''Gtk'', (4, 0))]) ''Gtk''
     = None
   \<and> unpinned_import (fresh_repository [(''GLib'', (2, 0)), (''Gtk'', (3, 0)), (''Gtk'', (4, 0))])
       = Inr \<lparr>typelibs = [(''GLib'', (2, 0)), (''Gtk'', (3, 0)), (''Gtk'', (4, 0))],
              loaded = [''GLib'' \<mapsto> (2, 0), ''Gtk'' \<mapsto> (4, 0)], required = Map.empty\<rparr>
   \<and> module_toplevel (fresh_repository [(''GLib'', (2, 0)), (''Gtk'', (3, 0)), (''Gtk'', (4, 0))])
       = Inr \<lparr>typelibs = [(''GLib'', (2, 0)), (''Gtk'', (3, 0)), (''Gtk'', (4, 0))],
              loaded = [''GLib'' \<mapsto> (2, 0), ''Gtk'' \<mapsto> (4, 0)],
              required = [''Gtk'' \<mapsto> (4, 0)]\<rparr>
   \<and> latest (enumerate_versions ''Gtk''
        (fresh_repository [(''GLib'', (2, 0)), (''Gtk'', (3, 0)), (''Gtk'', (4, 0))])) = Some (4, 0)"
proof -
  have a: "loaded (fresh_repository [(''GLib'', (2, 0)), (''Gtk'', (3, 0)), (''Gtk'', (4, 0))])
             ''Gtk'' = None"
    by (simp add: fresh_repository_def)
  have b: "required (fresh_repository [(''GLib'', (2, 0)), (''Gtk'', (3, 0)), (''Gtk'', (4, 0))])
             ''Gtk'' = None"
    by (simp add: fresh_repository_def)
  have u: "unpinned_import
             (fresh_repository [(''GLib'', (2, 0)), (''Gtk'', (3, 0)), (''Gtk'', (4, 0))])
       = Inr \<lparr>typelibs = [(''GLib'', (2, 0)), (''Gtk'', (3, 0)), (''Gtk'', (4, 0))],
              loaded = [''GLib'' \<mapsto> (2, 0), ''Gtk'' \<mapsto> (4, 0)], required = Map.empty\<rparr>"
    by (simp add: unpinned_import_def import_namespace_def fresh_repository_def
        enumerate_versions_def)
  show ?thesis
    using a b u require_version_after_import [OF a b]
    by (simp add: require_version_def enumerate_versions_def)
qed

subsection \<open>The entry point\<close>




section \<open>Properties of Shell B\<close>

lemma Dashboard_init_eq:
  "Dashboard_init w =
     (length w,
      w @ [\<lparr>cls = QMainWindow, parent = None, windowTitle = ''RestEasy'', buttonText = [],
             centralWidget = Some (Suc (length w)), connections = [], shown = True\<rparr>,
           \<lparr>cls = QPushButton, parent = Some (length w), windowTitle = [],
             buttonText = ''RestEasy (WIP)'', centralWidget = None,
             connections = [(pressed, close_of (length w))], shown = False\<rparr>])"
  by (simp add: Dashboard_init_def QMainWindow_new_def QPushButton_new_def QWidget_new_def
      setWindowTitle_def connect_def setCentralWidget_def show_widget_def
      nth_append list_update_append)

lemma wf_world_no_child:
  "wf_world w \<Longrightarrow> filter (\<lambda>x. parent x = Some (length w)) w = []"
  by (auto simp add: wf_world_def list_all_iff filter_empty_conv)

text \<open>
  C4. Constructing a \<^verbatim>\<open>Dashboard\<close> in a well-formed widget store adds exactly
  one window to it (the only one when the store was empty). The window is the
  main window, its title is \<^verbatim>\<open>"RestEasy"\<close>, and it contains exactly one widget:
  a push button whose text is \<^verbatim>\<open>"RestEasy (WIP)"\<close>.
\<close>

theorem Dashboard_window_and_button:
  assumes "wf_world w" and "Dashboard_init w = (self, w')"
  shows "length (qt_windows w') = length (qt_windows w) + 1
       \<and> cls (w' ! self) = QMainWindow \<and> parent (w' ! self) = None
       \<and> windowTitle (w' ! self) = ''RestEasy''
       \<and> length (children self w') = 1
       \<and> map cls (children self w') = [QPushButton]
       \<and> map buttonText (children self w') = [''RestEasy (WIP)'']
       \<and> (w = [] \<longrightarrow> length (qt_windows w') = 1)"
  using assms wf_world_no_child [OF assms(1)]
  by (auto simp add: Dashboard_init_eq qt_windows_def children_def)

theorem Dashboard_window_and_button_witness:
  "wf_world []
   \<and> Dashboard_init [] =
       (0, [\<lparr>cls = QMainWindow, parent = None, windowTitle = ''RestEasy'', buttonText = [],
             centralWidget = Some 1, connections = [], shown = True\<rparr>,
           \<lparr>cls = QPushButton, parent = Some 0, windowTitle = [],
             buttonText = ''RestEasy (WIP)'', centralWidget = None,
             connections = [(pressed, close_of 0)], shown = False\<rparr>])
   \<and> length (qt_windows (snd (Dashboard_init []))) = 1
   \<and> windowTitle (snd (Dashboard_init []) ! 0) = ''RestEasy''
   \<and> map buttonText (children 0 (snd (Dashboard_init []))) = [''RestEasy (WIP)'']"
proof -
  have a: "wf_world []" by (simp add: wf_world_def)
  have b: "Dashboard_init [] = (0, snd (Dashboard_init []))"
    by (simp add: Dashboard_init_eq)
  show ?thesis
    using a Dashboard_window_and_button [OF a b]
    by (simp add: Dashboard_init_eq qt_windows_def children_def)
qed

text \<open>
  C7. When the constructor of \<^verbatim>\<open>Dashboard\<close> returns, the window it has built is
  already on screen: the constructor itself calls \<^verbatim>\<open>show()\<close>, the caller has
  nothing left to do.
\<close>

theorem Dashboard_shown_on_return:
  "shown (snd (Dashboard_init w) ! fst (Dashboard_init w))
   \<and> parent (snd (Dashboard_init w) ! fst (Dashboard_init w)) = None"
  by (simp add: Dashboard_init_eq)

text \<open>
  C2. The signal the constructor wires to \<^verbatim>\<open>self.close\<close> is the button's
  \<^verbatim>\<open>pressed\<close> signal. On every constructed \<^verbatim>\<open>Dashboard\<close>, emitting it on the
  window's button raises nothing and leaves the window, which was on screen,
  closed; the store then shows as many windows as before the construction.
\<close>

theorem pressed_closes_window:
  assumes "Dashboard_init w = (self, w')" and "centralWidget (w' ! self) = Some button"
  shows "shown (w' ! self)
       \<and> emit button pressed w' = Inr (close_widget self w')
       \<and> \<not> shown (close_widget self w' ! self)
       \<and> length (qt_shown_windows (close_widget self w')) = length (qt_shown_windows w)"
  using assms
  by (auto simp add: Dashboard_init_eq emit_def close_widget_def nth_append
      list_update_append qt_shown_windows_def)

theorem pressed_closes_window_witness:
  "Dashboard_init [] = (0, snd (Dashboard_init []))
   \<and> centralWidget (snd (Dashboard_init []) ! 0) = Some 1
   \<and> shown (snd (Dashboard_init []) ! 0)
   \<and> emit 1 pressed (snd (Dashboard_init [])) = Inr (close_widget 0 (snd (Dashboard_init [])))
   \<and> \<not> shown (close_widget 0 (snd (Dashboard_init [])) ! 0)"
proof -
  have a: "Dashboard_init [] = (0, snd (Dashboard_init []))"
    by (simp add: Dashboard_init_eq)
  have b: "centralWidget (snd (Dashboard_init []) ! 0) = Some 1"
    by (simp add: Dashboard_init_eq)
  show ?thesis
    using a b pressed_closes_window [OF a b] by simp
qed

section \<open>Windows on screen, per shell\<close>

text \<open>
  C3, as stated: after any number of \<^verbatim>\<open>activate()\<close> invocations at most one
  window of Shell A is on screen. Every activation builds and presents a new
  window, so two activations of a fresh application leave two on screen.
\<close>

theorem two_activations_counterexample:
  "\<not> length (shown_windows (activations 2 (fst fresh_app) (snd fresh_app))) \<le> 1"
  by (simp add: activations_windows fresh_app_eq shown_windows_def)

text \<open>
  C3, amended: after \<open>n\<close> activations of a fresh Shell A application exactly
  \<open>n\<close> windows are on screen, so at most one window is shown in every state
  reached with at most one \<^verbatim>\<open>activate()\<close>; a single construction of Shell B
  puts exactly one more window on screen, hence exactly one in a store that
  was empty.
\<close>

theorem shown_windows_per_shell:
  "length (shown_windows (activations n (fst fresh_app) (snd fresh_app))) = n
   \<and> (n \<le> 1 \<longrightarrow> length (shown_windows (activations n (fst fresh_app) (snd fresh_app))) \<le> 1)
   \<and> length (qt_shown_windows (snd (Dashboard_init w))) = length (qt_shown_windows w) + 1
   \<and> length (qt_shown_windows (snd (Dashboard_init []))) \<le> 1"
  by (simp add: activations_shown Dashboard_init_eq qt_shown_windows_def)
     (simp add: fresh_app_eq shown_windows_def)

theorem shown_windows_per_shell_witness:
  "(1::nat) \<le> 1
   \<and> length (shown_windows (activations 1 (fst fresh_app) (snd fresh_app))) \<le> 1
   \<and> length (qt_shown_windows (snd (Dashboard_init []))) \<le> 1"
proof -
  have h: "(1::nat) \<le> 1" by simp
  have a: "length (shown_windows (activations 1 (fst fresh_app) (snd fresh_app))) \<le> 1"
    using shown_windows_per_shell [of 1 "[]"] h by blast
  have b: "length (qt_shown_windows (snd (Dashboard_init []))) \<le> 1"
    using shown_windows_per_shell [of 1 "[]"] by blast
  show ?thesis by (intro conjI h a b)
qed

end
